theory Spec2Isabelle
  imports Main
begin

section \<open>Values exchanged with the collaborators\<close>

text \<open>
  What \<open>json.loads\<close> can return: \<open>None\<close>, a bool, an int, a float (kept as
  mantissa and decimal exponent; no function of the program computes with it), a str, a
  list, or a dict. A dict is an association list in insertion order; \<open>json.loads\<close>
  never produces a repeated key.
\<close>

datatype json =
    JNull
  | JBool bool
  | JInt int
  | JFloat int int
  | JStr string
  | JArr "json list"
  | JObj "(string \<times> json) list"

text \<open>The exceptions the pipeline can see. \<open>External\<close> carries the message of an
  exception raised inside a collaborator (rasterizer, imaging library, API client).\<close>

datatype exn =
    ValueError
  | JSONDecodeError
  | AttributeError
  | TypeError
  | IndexError
  | FileNotFoundError
  | FileExistsError
  | IsADirectoryError
  | NotADirectoryError
  | PermissionError
  | UnidentifiedImageError
  | External string

text \<open>A rendered page as the rasterizer hands it over (its bytes).\<close>

type_synonym image = string

text \<open>The client object: it holds the API key it was built with.\<close>

type_synonym client = string

text \<open>\<open>datetime.now()\<close>.\<close>

record datetime =
  year :: nat
  month :: nat
  day :: nat
  hour :: nat
  minute :: nat
  second :: nat
  microsecond :: nat

section \<open>The filesystem, the log and the network\<close>

text \<open>
  A path names a directory, a JPEG file holding one image, or a CSV file holding its rows
  (each row the list of its cells, before the writer formats them as text). The namespace
  is flat: a path exists or not on its own, and only \<open>rmtree\<close> looks below a path.
\<close>

datatype node = Dir | ImageFile image | CsvFile "json list list"

text \<open>One record per logging call of the source, with the values its message formats.\<close>

datatype log_event =
    EnsuredDirectory string
  | CleanedUp string
  | CleanupFailed exn
  | ClientInitFailed exn
  | Converted nat string
  | ConvertFailed exn
  | Base64Failed exn
  | InvalidItem nat json
  | ImageFailed nat exn
  | PageExtracted nat nat
  | Saved string
  | SaveFailed exn
  | DocumentFailed exn

datatype level = INFO | WARNING | ERROR

fun level_of :: "log_event \<Rightarrow> level" where
  "level_of (EnsuredDirectory _) = INFO"
| "level_of (CleanedUp _) = INFO"
| "level_of (CleanupFailed _) = WARNING"
| "level_of (ClientInitFailed _) = ERROR"
| "level_of (Converted _ _) = INFO"
| "level_of (ConvertFailed _) = ERROR"
| "level_of (Base64Failed _) = ERROR"
| "level_of (InvalidItem _ _) = WARNING"
| "level_of (ImageFailed _ _) = ERROR"
| "level_of (PageExtracted _ _) = INFO"
| "level_of (Saved _) = INFO"
| "level_of (SaveFailed _) = ERROR"
| "level_of (DocumentFailed _) = ERROR"

text \<open>One call of \<open>client.messages.create\<close>: the page number and page count written
  into the prompt, the image sent, and what came back (the texts of the content blocks,
  or the exception).\<close>

datatype exchange =
  Exchange (ex_page: nat) (ex_total: nat) (ex_image: string) (ex_response: "exn + string list")

text \<open>
  The collaborators, as the run finds them. Each field answers one external call:
  the environment variable, the clock (indexed by the number of earlier readings), the
  failures of the filesystem, the client constructor, \<open>convert_from_path\<close>, the JPEG
  re-encoding with base64, the hosted model, and \<open>json.loads\<close>.
\<close>

record world =
  getenv :: "string \<Rightarrow> string option"
  now :: "nat \<Rightarrow> datetime"
  mkdir_error :: "string \<Rightarrow> exn option"
  rmtree_error :: "string \<Rightarrow> exn option"
  open_error :: "string \<Rightarrow> exn option"
  anthropic_init :: "string \<Rightarrow> exn option"
  convert_from_path :: "string \<Rightarrow> nat \<Rightarrow> exn + image list"
  jpeg_base64 :: "image \<Rightarrow> exn + string"
  messages_create :: "client \<Rightarrow> nat \<Rightarrow> nat \<Rightarrow> string \<Rightarrow> exn + string list"
  json_loads :: "string \<Rightarrow> json option"

text \<open>What a run changes: the filesystem, the log, the calls made to the hosted model,
  the PDFs handed to the rasterizer, and the number of clock readings.\<close>

record system =
  fs :: "string \<Rightarrow> node option"
  logs :: "log_event list"
  exchanges :: "exchange list"
  rasterized :: "string list"
  clock_reads :: nat

definition logger :: "log_event \<Rightarrow> system \<Rightarrow> system" where
  "logger ev s = s\<lparr>logs := logs s @ [ev]\<rparr>"

text \<open>\<open>except Exception as e: logger.error(...); raise\<close>.\<close>

definition log_and_reraise ::
  "(exn \<Rightarrow> log_event) \<Rightarrow> (exn + 'a) \<times> system \<Rightarrow> (exn + 'a) \<times> system" where
  "log_and_reraise msg r =
     (case r of
        (Inl e, s) \<Rightarrow> (Inl e, logger (msg e) s)
      | (Inr x, s) \<Rightarrow> (Inr x, s))"

definition datetime_now :: "world \<Rightarrow> system \<Rightarrow> datetime \<times> system" where
  "datetime_now w s = (now w (clock_reads s), s\<lparr>clock_reads := Suc (clock_reads s)\<rparr>)"

subsection \<open>Paths and text formatting\<close>

definition OUTPUT_DIR :: string where
  "OUTPUT_DIR = ''output''"

definition TEMP_DIR :: string where
  "TEMP_DIR = ''temp''"

definition os_path_join :: "string \<Rightarrow> string \<Rightarrow> string" where
  "os_path_join a b =
     (if b \<noteq> [] \<and> hd b = CHR ''/'' then b
      else if a = [] \<or> last a = CHR ''/'' then a @ b
      else a @ ''/'' @ b)"

definition basename :: "string \<Rightarrow> string" where
  "basename p = rev (takeWhile (\<lambda>c. c \<noteq> CHR ''/'') (rev p))"

text \<open>\<open>os.path.splitext(b)[0]\<close> for a name without a separator: cut at the last dot,
  unless only dots precede it.\<close>

definition splitext_root :: "string \<Rightarrow> string" where
  "splitext_root b =
     (let rest = dropWhile (\<lambda>c. c \<noteq> CHR ''.'') (rev b) in
      if rest = [] then b
      else if \<forall>c \<in> set (tl rest). c = CHR ''.'' then b
      else rev (tl rest))"

definition digit :: "nat \<Rightarrow> char" where
  "digit n = ''0123456789'' ! n"

text \<open>\<open>str(n)\<close> for a page number.\<close>

fun str_nat :: "nat \<Rightarrow> string" where
  "str_nat n = (if n < 10 then [digit n] else str_nat (n div 10) @ [digit (n mod 10)])"

declare str_nat.simps [simp del]

definition pad2 :: "nat \<Rightarrow> string" where
  "pad2 n = [digit (n div 10 mod 10), digit (n mod 10)]"

definition pad4 :: "nat \<Rightarrow> string" where
  "pad4 n = [digit (n div 1000 mod 10), digit (n div 100 mod 10),
             digit (n div 10 mod 10), digit (n mod 10)]"

text \<open>\<open>strftime("%Y%m%d_%H%M%S")\<close>: the microseconds are not printed.\<close>

definition strftime :: "datetime \<Rightarrow> string" where
  "strftime t =
     pad4 (year t) @ pad2 (month t) @ pad2 (day t) @ ''_'' @
     pad2 (hour t) @ pad2 (minute t) @ pad2 (second t)"

subsection \<open>Filesystem calls\<close>

definition os_path_exists :: "system \<Rightarrow> string \<Rightarrow> bool" where
  "os_path_exists s p = (fs s p \<noteq> None)"

text \<open>\<open>os.makedirs(p, exist_ok=True)\<close>: nothing to do and no error for an existing
  directory; \<open>FileExistsError\<close> when the path is a file; otherwise the directory is
  created unless the filesystem refuses.\<close>

definition os_makedirs :: "world \<Rightarrow> string \<Rightarrow> system \<Rightarrow> (exn + unit) \<times> system" where
  "os_makedirs w p s =
     (case fs s p of
        Some Dir \<Rightarrow> (Inr (), s)
      | Some _ \<Rightarrow> (Inl FileExistsError, s)
      | None \<Rightarrow>
          (case mkdir_error w p of
             Some e \<Rightarrow> (Inl e, s)
           | None \<Rightarrow> (Inr (), s\<lparr>fs := (fs s)(p \<mapsto> Dir)\<rparr>)))"

text \<open>\<open>q\<close> lies below the directory \<open>p\<close>.\<close>

definition below :: "string \<Rightarrow> string \<Rightarrow> bool" where
  "below p q = (take (length p + 1) q = p @ ''/'')"

text \<open>\<open>shutil.rmtree(p)\<close>: removes the directory and everything below it, or fails and
  removes nothing.\<close>

definition shutil_rmtree :: "world \<Rightarrow> string \<Rightarrow> system \<Rightarrow> (exn + unit) \<times> system" where
  "shutil_rmtree w p s =
     (case rmtree_error w p of
        Some e \<Rightarrow> (Inl e, s)
      | None \<Rightarrow>
          (case fs s p of
             None \<Rightarrow> (Inl FileNotFoundError, s)
           | Some Dir \<Rightarrow>
               (Inr (), s\<lparr>fs := (\<lambda>q. if q = p \<or> below p q then None else fs s q)\<rparr>)
           | Some _ \<Rightarrow> (Inl NotADirectoryError, s)))"

text \<open>Opening a path for writing and storing a file there (\<open>image.save\<close>,
  \<open>open(output_file, 'w')\<close>): an existing file is replaced.\<close>

definition write_file :: "world \<Rightarrow> string \<Rightarrow> node \<Rightarrow> system \<Rightarrow> (exn + unit) \<times> system" where
  "write_file w p n s =
     (case open_error w p of
        Some e \<Rightarrow> (Inl e, s)
      | None \<Rightarrow>
          (case fs s p of
             Some Dir \<Rightarrow> (Inl IsADirectoryError, s)
           | _ \<Rightarrow> (Inr (), s\<lparr>fs := (fs s)(p \<mapsto> n)\<rparr>)))"

section \<open>Directory provisioning and cleanup\<close>

fun ensure_each :: "world \<Rightarrow> string list \<Rightarrow> system \<Rightarrow> (exn + unit) \<times> system" where
  "ensure_each w [] s = (Inr (), s)"
| "ensure_each w (directory # ds) s =
     (case os_makedirs w directory s of
        (Inl e, s') \<Rightarrow> (Inl e, s')
      | (Inr _, s') \<Rightarrow> ensure_each w ds (logger (EnsuredDirectory directory) s'))"

definition ensure_directories :: "world \<Rightarrow> system \<Rightarrow> (exn + unit) \<times> system" where
  "ensure_directories w s = ensure_each w [OUTPUT_DIR, TEMP_DIR] s"

text \<open>The \<open>try\<close> around the removal catches every exception and logs a warning:
  the function never raises.\<close>

definition cleanup_temp_files :: "world \<Rightarrow> string \<Rightarrow> system \<Rightarrow> system" where
  "cleanup_temp_files w temp_folder s =
     (if os_path_exists s temp_folder then
        (case shutil_rmtree w temp_folder s of
           (Inl e, s') \<Rightarrow> logger (CleanupFailed e) s'
         | (Inr _, s') \<Rightarrow> logger (CleanedUp temp_folder) s')
      else s)"

section \<open>Client setup\<close>

text \<open>\<open>not api_key\<close> holds for \<open>None\<close> and for the empty string. The \<open>ValueError\<close>
  is raised before the \<open>try\<close>, so it is not logged here.\<close>

definition setup_anthropic_client :: "world \<Rightarrow> system \<Rightarrow> (exn + client) \<times> system" where
  "setup_anthropic_client w s =
     (case getenv w ''ANTHROPIC_API_KEY'' of
        None \<Rightarrow> (Inl ValueError, s)
      | Some api_key \<Rightarrow>
          if api_key = [] then (Inl ValueError, s)
          else
            (case anthropic_init w api_key of
               Some e \<Rightarrow> (Inl e, logger (ClientInitFailed e) s)
             | None \<Rightarrow> (Inr api_key, s)))"

section \<open>Rasterizer\<close>

definition rasterize :: "world \<Rightarrow> string \<Rightarrow> nat \<Rightarrow> system \<Rightarrow> (exn + image list) \<times> system" where
  "rasterize w pdf_path dpi s =
     (convert_from_path w pdf_path dpi, s\<lparr>rasterized := rasterized s @ [pdf_path]\<rparr>)"

text \<open>The loop over \<open>enumerate(images)\<close>; \<open>i\<close> is the index of the next image.\<close>

fun save_pages ::
  "world \<Rightarrow> string \<Rightarrow> nat \<Rightarrow> image list \<Rightarrow> string list \<Rightarrow> system \<Rightarrow>
   (exn + string list) \<times> system" where
  "save_pages w temp_folder i [] image_paths s = (Inr image_paths, s)"
| "save_pages w temp_folder i (img # images) image_paths s =
     (let image_path = os_path_join temp_folder (''page_'' @ str_nat (i + 1) @ ''.jpg'') in
      case write_file w image_path (ImageFile img) s of
        (Inl e, s') \<Rightarrow> (Inl e, s')
      | (Inr _, s') \<Rightarrow>
          save_pages w temp_folder (i + 1) images (image_paths @ [image_path]) s')"

definition temp_folder_name :: "datetime \<Rightarrow> string" where
  "temp_folder_name t = os_path_join TEMP_DIR (''pdf_images_'' @ strftime t)"

definition convert_pdf_to_images ::
  "world \<Rightarrow> string \<Rightarrow> nat \<Rightarrow> system \<Rightarrow> (exn + string list \<times> string) \<times> system" where
  "convert_pdf_to_images w pdf_path dpi s =
     log_and_reraise ConvertFailed
       (case datetime_now w s of
          (t, s0) \<Rightarrow>
            (let temp_folder = temp_folder_name t in
             case os_makedirs w temp_folder s0 of
               (Inl e, s1) \<Rightarrow> (Inl e, s1)
             | (Inr _, s1) \<Rightarrow>
                 (case rasterize w pdf_path dpi s1 of
                    (Inl e, s2) \<Rightarrow> (Inl e, s2)
                  | (Inr images, s2) \<Rightarrow>
                      (case save_pages w temp_folder 0 images [] s2 of
                         (Inl e, s3) \<Rightarrow> (Inl e, s3)
                       | (Inr image_paths, s3) \<Rightarrow>
                           (Inr (image_paths, temp_folder),
                            logger (Converted (length images) temp_folder) s3)))))"

section \<open>Page extractor\<close>

definition image_to_base64 :: "world \<Rightarrow> string \<Rightarrow> system \<Rightarrow> (exn + string) \<times> system" where
  "image_to_base64 w image_path s =
     log_and_reraise Base64Failed
       (case fs s image_path of
          None \<Rightarrow> (Inl FileNotFoundError, s)
        | Some Dir \<Rightarrow> (Inl IsADirectoryError, s)
        | Some (CsvFile _) \<Rightarrow> (Inl UnidentifiedImageError, s)
        | Some (ImageFile img) \<Rightarrow> (jpeg_base64 w img, s))"

definition required_keys :: "string list" where
  "required_keys = [''Commodity Name'', ''Qty'', ''UOM'']"

text \<open>\<open>k in item\<close> for a dict.\<close>

definition has_key :: "string \<Rightarrow> (string \<times> json) list \<Rightarrow> bool" where
  "has_key k kvs = (k \<in> fst ` set kvs)"

text \<open>\<open>item.get(k)\<close> for a dict.\<close>

definition dict_get :: "(string \<times> json) list \<Rightarrow> string \<Rightarrow> json option" where
  "dict_get kvs k = map_of kvs k"

text \<open>\<open>dict.setdefault(k, v)\<close>: inserts only when the key is absent; a key that is
  present keeps its value, whatever it is.\<close>

definition setdefault ::
  "string \<Rightarrow> json \<Rightarrow> (string \<times> json) list \<Rightarrow> (string \<times> json) list" where
  "setdefault k v kvs = (if has_key k kvs then kvs else kvs @ [(k, v)])"

text \<open>The guard of the validation loop:
  \<open>not isinstance(item, dict) or not all(k in item for k in [...])\<close>.\<close>

definition invalid_item :: "json \<Rightarrow> bool" where
  "invalid_item item =
     (case item of
        JObj kvs \<Rightarrow> \<not> (\<forall>k \<in> set required_keys. has_key k kvs)
      | _ \<Rightarrow> True)"

text \<open>The three \<open>setdefault\<close> calls. Only a dict has the method; on any other value the
  first call raises \<open>AttributeError\<close>.\<close>

definition fix_item :: "json \<Rightarrow> exn + json" where
  "fix_item item =
     (case item of
        JObj kvs \<Rightarrow>
          Inr (JObj (setdefault ''UOM'' (JStr ''BOX'')
                    (setdefault ''Qty'' (JInt 1)
                    (setdefault ''Commodity Name'' (JStr '''') kvs))))
      | _ \<Rightarrow> Inl AttributeError)"

text \<open>What \<open>for item in results\<close> visits: the elements of a list, the keys of a dict,
  the characters of a str; any other value is not iterable.\<close>

definition py_iter :: "json \<Rightarrow> exn + json list" where
  "py_iter v =
     (case v of
        JArr xs \<Rightarrow> Inr xs
      | JObj kvs \<Rightarrow> Inr (map (\<lambda>kv. JStr (fst kv)) kvs)
      | JStr cs \<Rightarrow> Inr (map (\<lambda>c. JStr [c]) cs)
      | _ \<Rightarrow> Inl TypeError)"

definition py_len :: "json \<Rightarrow> exn + nat" where
  "py_len v =
     (case v of
        JArr xs \<Rightarrow> Inr (length xs)
      | JObj kvs \<Rightarrow> Inr (length kvs)
      | JStr cs \<Rightarrow> Inr (length cs)
      | _ \<Rightarrow> Inl TypeError)"

text \<open>The validation loop. The warning is logged before the repair is attempted.\<close>

fun validate_items :: "nat \<Rightarrow> json list \<Rightarrow> system \<Rightarrow> (exn + json list) \<times> system" where
  "validate_items page_number [] s = (Inr [], s)"
| "validate_items page_number (item # rest) s =
     (if invalid_item item then
        (let s1 = logger (InvalidItem page_number item) s in
         case fix_item item of
           Inl e \<Rightarrow> (Inl e, s1)
         | Inr item' \<Rightarrow>
             (case validate_items page_number rest s1 of
                (Inl e, s2) \<Rightarrow> (Inl e, s2)
              | (Inr rest', s2) \<Rightarrow> (Inr (item' # rest'), s2)))
      else
        (case validate_items page_number rest s of
           (Inl e, s2) \<Rightarrow> (Inl e, s2)
         | (Inr rest', s2) \<Rightarrow> (Inr (item # rest'), s2)))"

text \<open>The repair mutates the dicts held by the list \<open>results\<close>. The keys of a dict and
  the characters of a str are not dicts, so the loop over them ends without an error
  only when there are none, and \<open>results\<close> is returned as it was.\<close>

definition store_items :: "json \<Rightarrow> json list \<Rightarrow> json" where
  "store_items results items = (case results of JArr _ \<Rightarrow> JArr items | _ \<Rightarrow> results)"

definition process_image_with_claude ::
  "world \<Rightarrow> client \<Rightarrow> string \<Rightarrow> nat \<Rightarrow> nat \<Rightarrow> system \<Rightarrow> (exn + json) \<times> system" where
  "process_image_with_claude w client image_base64 page_number total_pages s =
     log_and_reraise (ImageFailed page_number)
       (let message = messages_create w client page_number total_pages image_base64;
            s1 = s\<lparr>exchanges := exchanges s @
                   [Exchange page_number total_pages image_base64 message]\<rparr> in
        case message of
          Inl e \<Rightarrow> (Inl e, s1)
        | Inr content \<Rightarrow>
            (case content of
               [] \<Rightarrow> (Inl IndexError, s1)
             | response_text # _ \<Rightarrow>
                 (case json_loads w response_text of
                    None \<Rightarrow> (Inl JSONDecodeError, s1)
                  | Some results \<Rightarrow>
                      (case py_iter results of
                         Inl e \<Rightarrow> (Inl e, s1)
                       | Inr items \<Rightarrow>
                           (case validate_items page_number items s1 of
                              (Inl e, s2) \<Rightarrow> (Inl e, s2)
                            | (Inr items', s2) \<Rightarrow> (Inr (store_items results items'), s2))))))"

section \<open>Writer\<close>

definition fieldnames :: "string list" where
  "fieldnames = [''Commodity Name'', ''Qty'', ''UOM'']"

text \<open>\<open>DictWriter._dict_to_list\<close> with the default \<open>extrasaction='raise'\<close> and
  \<open>restval=''\<close>.\<close>

definition dict_to_list :: "json \<Rightarrow> exn + json list" where
  "dict_to_list rowdict =
     (case rowdict of
        JObj kvs \<Rightarrow>
          if \<exists>k \<in> fst ` set kvs. k \<notin> set fieldnames then Inl ValueError
          else Inr (map (\<lambda>k. case dict_get kvs k of Some v \<Rightarrow> v | None \<Rightarrow> JStr '''') fieldnames)
      | _ \<Rightarrow> Inl AttributeError)"

definition csv_rows :: "node option \<Rightarrow> json list list" where
  "csv_rows n = (case n of Some (CsvFile rows) \<Rightarrow> rows | _ \<Rightarrow> [])"

definition append_row :: "string \<Rightarrow> json list \<Rightarrow> system \<Rightarrow> system" where
  "append_row f cells s = s\<lparr>fs := (fs s)(f \<mapsto> CsvFile (csv_rows (fs s f) @ [cells]))\<rparr>"

text \<open>\<open>writer.writerows(data)\<close>: rows are converted and written one after the other, so
  the rows before a rejected one are already in the file.\<close>

fun writerows :: "string \<Rightarrow> json list \<Rightarrow> system \<Rightarrow> (exn + unit) \<times> system" where
  "writerows f [] s = (Inr (), s)"
| "writerows f (row # rows) s =
     (case dict_to_list row of
        Inl e \<Rightarrow> (Inl e, s)
      | Inr cells \<Rightarrow> writerows f rows (append_row f cells s))"

definition csv_file_name :: "string \<Rightarrow> datetime \<Rightarrow> string" where
  "csv_file_name source_file t =
     os_path_join OUTPUT_DIR
       (splitext_root (basename source_file) @ ''_'' @ strftime t @ ''.csv'')"

definition save_to_csv :: "world \<Rightarrow> json list \<Rightarrow> string \<Rightarrow> system \<Rightarrow> (exn + string) \<times> system" where
  "save_to_csv w data source_file s =
     log_and_reraise SaveFailed
       (case datetime_now w s of
          (t, s0) \<Rightarrow>
            (let output_file = csv_file_name source_file t in
             case write_file w output_file (CsvFile []) s0 of
               (Inl e, s1) \<Rightarrow> (Inl e, s1)
             | (Inr _, s1) \<Rightarrow>
                 (case writerows output_file data
                         (append_row output_file (map JStr fieldnames) s1) of
                    (Inl e, s2) \<Rightarrow> (Inl e, s2)
                  | (Inr _, s2) \<Rightarrow> (Inr output_file, logger (Saved output_file) s2))))"

section \<open>The run\<close>

text \<open>The body of the loop over the pages, up to the items that
  \<open>all_results.extend(results)\<close> appends.\<close>

definition extract_page ::
  "world \<Rightarrow> client \<Rightarrow> nat \<Rightarrow> nat \<Rightarrow> string \<Rightarrow> system \<Rightarrow> (exn + json list) \<times> system" where
  "extract_page w client total_pages page_num image_path s =
     (case image_to_base64 w image_path s of
        (Inl e, s1) \<Rightarrow> (Inl e, s1)
      | (Inr image_base64, s1) \<Rightarrow>
          (case process_image_with_claude w client image_base64 page_num total_pages s1 of
             (Inl e, s2) \<Rightarrow> (Inl e, s2)
           | (Inr results, s2) \<Rightarrow>
               (case py_len results of
                  Inl e \<Rightarrow> (Inl e, s2)
                | Inr n \<Rightarrow>
                    (let s3 = logger (PageExtracted page_num n) s2 in
                     case py_iter results of
                       Inl e \<Rightarrow> (Inl e, s3)
                     | Inr items \<Rightarrow> (Inr items, s3)))))"

text \<open>The loop over \<open>enumerate(image_paths, 1)\<close>.\<close>

fun extract_pages ::
  "world \<Rightarrow> client \<Rightarrow> nat \<Rightarrow> nat \<Rightarrow> string list \<Rightarrow> json list \<Rightarrow> system \<Rightarrow>
   (exn + json list) \<times> system" where
  "extract_pages w client total_pages page_num [] all_results s = (Inr all_results, s)"
| "extract_pages w client total_pages page_num (image_path # rest) all_results s =
     (case extract_page w client total_pages page_num image_path s of
        (Inl e, s') \<Rightarrow> (Inl e, s')
      | (Inr items, s') \<Rightarrow>
          extract_pages w client total_pages (page_num + 1) rest (all_results @ items) s')"

text \<open>The body of the inner \<open>try\<close>.\<close>

definition extract_and_save ::
  "world \<Rightarrow> client \<Rightarrow> string list \<Rightarrow> string \<Rightarrow> system \<Rightarrow> (exn + string) \<times> system" where
  "extract_and_save w client image_paths pdf_path s =
     (case extract_pages w client (length image_paths) 1 image_paths [] s of
        (Inl e, s1) \<Rightarrow> (Inl e, s1)
      | (Inr all_results, s1) \<Rightarrow> save_to_csv w all_results pdf_path s1)"

text \<open>The inner \<open>try ... finally\<close> starts only after the rasterizer has returned.\<close>

definition process_pdf_document_body ::
  "world \<Rightarrow> string \<Rightarrow> system \<Rightarrow> (exn + string) \<times> system" where
  "process_pdf_document_body w pdf_path s =
     (case ensure_directories w s of
        (Inl e, s1) \<Rightarrow> (Inl e, s1)
      | (Inr _, s1) \<Rightarrow>
          (case setup_anthropic_client w s1 of
             (Inl e, s2) \<Rightarrow> (Inl e, s2)
           | (Inr client, s2) \<Rightarrow>
               (case convert_pdf_to_images w pdf_path 300 s2 of
                  (Inl e, s3) \<Rightarrow> (Inl e, s3)
                | (Inr (image_paths, temp_folder), s3) \<Rightarrow>
                    (case extract_and_save w client image_paths pdf_path s3 of
                       (r, s4) \<Rightarrow> (r, cleanup_temp_files w temp_folder s4)))))"

definition process_pdf_document :: "world \<Rightarrow> string \<Rightarrow> system \<Rightarrow> (exn + string) \<times> system" where
  "process_pdf_document w pdf_path s =
     log_and_reraise DocumentFailed (process_pdf_document_body w pdf_path s)"

section \<open>Sample collaborators\<close>

definition sample_time :: datetime where
  "sample_time = \<lparr>year = 2024, month = 1, day = 15, hour = 12, minute = 30, second = 45,
     microsecond = 100000\<rparr>"

definition widget_row :: "(string \<times> json) list" where
  "widget_row = [(''Commodity Name'', JStr ''Widget''), (''Qty'', JInt 5), (''UOM'', JStr ''BOX'')]"

definition gadget_row :: "(string \<times> json) list" where
  "gadget_row = [(''Commodity Name'', JStr ''Gadget'')]"

definition sample_world :: world where
  "sample_world =
     \<lparr>getenv = (\<lambda>k. if k = ''ANTHROPIC_API_KEY'' then Some ''sk-test'' else None),
      now = (\<lambda>n. sample_time\<lparr>second := 45 + n\<rparr>),
      mkdir_error = (\<lambda>p. None),
      rmtree_error = (\<lambda>p. None),
      open_error = (\<lambda>p. None),
      anthropic_init = (\<lambda>k. None),
      convert_from_path = (\<lambda>p dpi. Inr [''scan of page 1'', ''scan of page 2'']),
      jpeg_base64 = (\<lambda>img. Inr img),
      messages_create = (\<lambda>c page_number total_pages img.
         if page_number = 1 then Inr [''answer 1''] else Inr [''answer 2'']),
      json_loads = (\<lambda>t.
         if t = ''answer 1'' then Some (JArr [JObj widget_row])
         else if t = ''answer 2'' then Some (JArr [JObj gadget_row])
         else None)\<rparr>"

definition empty_system :: system where
  "empty_system = \<lparr>fs = (\<lambda>p. None), logs = [], exchanges = [], rasterized = [], clock_reads = 0\<rparr>"

text \<open>A page whose answer carries a JSON \<open>null\<close> under a required key.\<close>

definition null_row :: "(string \<times> json) list" where
  "null_row = [(''Commodity Name'', JNull), (''Qty'', JInt 1), (''UOM'', JStr ''BOX'')]"

definition null_world :: world where
  "null_world = sample_world\<lparr>json_loads := (\<lambda>t. Some (JArr [JObj null_row]))\<rparr>"

section \<open>Properties of the model\<close>

subsection \<open>Logging leaves the rest of the state alone\<close>

lemma logger_fields [simp]:
  "fs (logger ev s) = fs s"
  "logs (logger ev s) = logs s @ [ev]"
  "exchanges (logger ev s) = exchanges s"
  "rasterized (logger ev s) = rasterized s"
  "clock_reads (logger ev s) = clock_reads s"
  by (simp_all add: logger_def)

lemma log_and_reraise_fst [simp]: "fst (log_and_reraise msg r) = fst r"
  by (cases r) (auto simp: log_and_reraise_def split: sum.splits)

lemma log_and_reraise_snd [simp]:
  "fs (snd (log_and_reraise msg r)) = fs (snd r)"
  "exchanges (snd (log_and_reraise msg r)) = exchanges (snd r)"
  "rasterized (snd (log_and_reraise msg r)) = rasterized (snd r)"
  "clock_reads (snd (log_and_reraise msg r)) = clock_reads (snd r)"
  by (cases r; auto simp: log_and_reraise_def split: sum.splits)+

lemma log_and_reraise_logs:
  "logs (snd (log_and_reraise msg r)) =
     (case fst r of Inl e \<Rightarrow> logs (snd r) @ [msg e] | Inr x \<Rightarrow> logs (snd r))"
  by (cases r) (auto simp: log_and_reraise_def split: sum.splits)

subsection \<open>Row-shape repair\<close>

lemma has_key_setdefault: "has_key k (setdefault k v kvs)"
  by (auto simp: setdefault_def has_key_def)

lemma has_key_setdefault_mono: "has_key k kvs \<Longrightarrow> has_key k (setdefault k' v kvs)"
  by (auto simp: setdefault_def has_key_def)

lemma setdefault_present: "has_key k kvs \<Longrightarrow> setdefault k v kvs = kvs"
  by (simp add: setdefault_def)

lemma fix_item_valid: "\<not> invalid_item item \<Longrightarrow> fix_item item = Inr item"
  by (cases item) (simp_all add: invalid_item_def fix_item_def required_keys_def setdefault_present)

lemma fix_item_complete: "fix_item item = Inr item' \<Longrightarrow> \<not> invalid_item item'"
  by (cases item)
     (auto simp: invalid_item_def fix_item_def required_keys_def has_key_setdefault
        has_key_setdefault_mono)

lemma fix_item_idem: "fix_item item = Inr item' \<Longrightarrow> fix_item item' = Inr item'"
  by (rule fix_item_valid) (rule fix_item_complete)

lemma validate_items_fs:
  "validate_items page_number xs s = (r, s') \<Longrightarrow>
     fs s' = fs s \<and> exchanges s' = exchanges s \<and> rasterized s' = rasterized s \<and>
     clock_reads s' = clock_reads s"
  by (induction xs arbitrary: s r s')
     (auto simp: Let_def split: if_splits sum.splits prod.splits)





subsection \<open>Directory provisioning\<close>

lemma os_makedirs_frame:
  "os_makedirs w p s = (r, s') \<Longrightarrow>
     logs s' = logs s \<and> exchanges s' = exchanges s \<and> rasterized s' = rasterized s \<and>
     clock_reads s' = clock_reads s \<and> (\<forall>q. q \<noteq> p \<longrightarrow> fs s' q = fs s q)"
  by (auto simp: os_makedirs_def split: option.splits node.splits)

lemma os_makedirs_ok:
  "os_makedirs w p s = (Inr u, s') \<Longrightarrow> fs s' p = Some Dir"
  by (auto simp: os_makedirs_def split: option.splits node.splits)

lemma os_makedirs_existing: "fs s p = Some Dir \<Longrightarrow> os_makedirs w p s = (Inr (), s)"
  by (simp add: os_makedirs_def)

lemma os_makedirs_ok_iff:
  "fst (os_makedirs w p s) = Inr () \<longleftrightarrow>
     fs s p = Some Dir \<or> (fs s p = None \<and> mkdir_error w p = None)"
  by (auto simp: os_makedirs_def split: option.splits node.splits)

lemma ensure_directories_unfold:
  "ensure_directories w s =
     (case os_makedirs w OUTPUT_DIR s of
        (Inl e, s1) \<Rightarrow> (Inl e, s1)
      | (Inr _, s1) \<Rightarrow>
          (case os_makedirs w TEMP_DIR (logger (EnsuredDirectory OUTPUT_DIR) s1) of
             (Inl e, s2) \<Rightarrow> (Inl e, s2)
           | (Inr _, s2) \<Rightarrow> (Inr (), logger (EnsuredDirectory TEMP_DIR) s2)))"
  by (simp add: ensure_directories_def split: prod.splits sum.splits)

lemma ensure_directories_frame:
  assumes "ensure_directories w s = (r, s')"
  shows "exchanges s' = exchanges s \<and> rasterized s' = rasterized s \<and>
         clock_reads s' = clock_reads s \<and>
         (\<forall>q. q \<noteq> OUTPUT_DIR \<and> q \<noteq> TEMP_DIR \<longrightarrow> fs s' q = fs s q)"
  using assms
  by (auto simp: ensure_directories_unfold split: prod.splits sum.splits
      dest!: os_makedirs_frame)

lemma ensure_directories_ok:
  assumes "ensure_directories w s = (Inr u, s')"
  shows "fs s' OUTPUT_DIR = Some Dir \<and> fs s' TEMP_DIR = Some Dir"
proof -
  from assms obtain u1 s1 u2 s2 where
    a: "os_makedirs w OUTPUT_DIR s = (Inr u1, s1)" and
    b: "os_makedirs w TEMP_DIR (logger (EnsuredDirectory OUTPUT_DIR) s1) = (Inr u2, s2)" and
    c: "s' = logger (EnsuredDirectory TEMP_DIR) s2"
    by (auto simp: ensure_directories_unfold split: prod.splits sum.splits)
  have ne: "OUTPUT_DIR \<noteq> TEMP_DIR" by (simp add: OUTPUT_DIR_def TEMP_DIR_def)
  from a have "fs s1 OUTPUT_DIR = Some Dir" by (rule os_makedirs_ok)
  moreover from b have "fs s2 TEMP_DIR = Some Dir" by (rule os_makedirs_ok)
  moreover from os_makedirs_frame [OF b] ne have "fs s2 OUTPUT_DIR = fs s1 OUTPUT_DIR"
    by simp
  ultimately show ?thesis using c by simp
qed

lemma ensure_directories_existing:
  assumes "fs s OUTPUT_DIR = Some Dir" "fs s TEMP_DIR = Some Dir"
  shows "fst (ensure_directories w s) = Inr () \<and> fs (snd (ensure_directories w s)) = fs s"
  using assms by (simp add: ensure_directories_unfold os_makedirs_existing)

lemma ensure_directories_ok_iff:
  "fst (ensure_directories w s) = Inr () \<longleftrightarrow>
     (fs s OUTPUT_DIR = Some Dir \<or> (fs s OUTPUT_DIR = None \<and> mkdir_error w OUTPUT_DIR = None)) \<and>
     (fs s TEMP_DIR = Some Dir \<or> (fs s TEMP_DIR = None \<and> mkdir_error w TEMP_DIR = None))"
proof -
  have ne: "TEMP_DIR \<noteq> OUTPUT_DIR" by (simp add: OUTPUT_DIR_def TEMP_DIR_def)
  show ?thesis
  proof (cases "os_makedirs w OUTPUT_DIR s")
    case (Pair r1 s1)
    note f1 = os_makedirs_frame [OF Pair]
    from f1 ne have t: "fs (logger (EnsuredDirectory OUTPUT_DIR) s1) TEMP_DIR = fs s TEMP_DIR"
      by simp
    show ?thesis
    proof (cases r1)
      case (Inl e)
      with Pair os_makedirs_ok_iff [of w OUTPUT_DIR s] show ?thesis
        by (auto simp: ensure_directories_unfold)
    next
      case (Inr u)
      with Pair os_makedirs_ok_iff [of w OUTPUT_DIR s]
        os_makedirs_ok_iff [of w TEMP_DIR "logger (EnsuredDirectory OUTPUT_DIR) s1"] t
      show ?thesis
        by (auto simp: ensure_directories_unfold split: prod.splits sum.splits)
    qed
  qed
qed

subsection \<open>Client setup\<close>

lemma setup_anthropic_client_frame:
  "setup_anthropic_client w s = (r, s') \<Longrightarrow>
     fs s' = fs s \<and> exchanges s' = exchanges s \<and> rasterized s' = rasterized s \<and>
     clock_reads s' = clock_reads s"
  by (auto simp: setup_anthropic_client_def split: option.splits if_splits)

lemma setup_anthropic_client_missing:
  "getenv w ''ANTHROPIC_API_KEY'' = None \<or> getenv w ''ANTHROPIC_API_KEY'' = Some [] \<Longrightarrow>
     setup_anthropic_client w s = (Inl ValueError, s)"
  by (auto simp: setup_anthropic_client_def)

subsection \<open>Evaluating the model on the samples\<close>

lemma str_nat_1: "str_nat (Suc 0) = ''1''"
  by (simp add: str_nat.simps digit_def)

lemma str_nat_2: "str_nat (Suc (Suc 0)) = ''2''"
  by (simp add: str_nat.simps digit_def)

lemmas model_defs =
  process_pdf_document_def process_pdf_document_body_def ensure_directories_def
  os_makedirs_def logger_def log_and_reraise_def datetime_now_def OUTPUT_DIR_def TEMP_DIR_def
  os_path_join_def basename_def splitext_root_def digit_def pad2_def pad4_def strftime_def
  os_path_exists_def below_def shutil_rmtree_def write_file_def cleanup_temp_files_def
  setup_anthropic_client_def rasterize_def temp_folder_name_def convert_pdf_to_images_def
  image_to_base64_def required_keys_def has_key_def dict_get_def setdefault_def invalid_item_def
  fix_item_def py_iter_def py_len_def store_items_def process_image_with_claude_def
  fieldnames_def dict_to_list_def csv_rows_def append_row_def csv_file_name_def save_to_csv_def
  extract_page_def extract_and_save_def Let_def str_nat_1 str_nat_2

lemmas sample_defs =
  sample_world_def sample_time_def widget_row_def gadget_row_def null_row_def null_world_def
  empty_system_def

section \<open>The claims\<close>

text \<open>
  C6. Default substitution is idempotent: the row-repair step applied to a record that
  already has the three keys \<open>Commodity Name\<close>, \<open>Qty\<close> and \<open>UOM\<close> leaves the record
  unchanged. This holds for the three \<open>setdefault\<close> calls themselves and for the
  validation loop around them, which then neither logs nor changes anything.
\<close>

theorem fix_item_complete_noop:
  "\<forall>k \<in> set required_keys. has_key k kvs \<Longrightarrow>
     fix_item (JObj kvs) = Inr (JObj kvs) \<and>
     validate_items page_number [JObj kvs] s = (Inr [JObj kvs], s)"
  by (simp add: fix_item_def invalid_item_def required_keys_def setdefault_present)

theorem fix_item_complete_noop_witness:
  "has_key ''Commodity Name'' widget_row \<and> has_key ''Qty'' widget_row \<and>
   has_key ''UOM'' widget_row \<and>
   fix_item (JObj widget_row) = Inr (JObj widget_row) \<and>
   validate_items 1 [JObj widget_row] empty_system = (Inr [JObj widget_row], empty_system)"
  using fix_item_complete_noop [of widget_row 1 empty_system]
  by (simp add: required_keys_def has_key_def widget_row_def)




text \<open>
  C7. The directory provisioner creates each of the two required directories that is absent
  and leaves alone, without an error, each that already exists as a directory: the call
  succeeds exactly when every required path is a directory already or is free and can be
  created; after a successful call both are directories and no other path has changed;
  when both exist beforehand the filesystem is left as it was; and a second call after a
  successful one succeeds and changes nothing.
\<close>

theorem ensure_directories_idempotent:
  "(fst (ensure_directories w s) = Inr () \<longleftrightarrow>
      (fs s OUTPUT_DIR = Some Dir \<or>
         (fs s OUTPUT_DIR = None \<and> mkdir_error w OUTPUT_DIR = None)) \<and>
      (fs s TEMP_DIR = Some Dir \<or>
         (fs s TEMP_DIR = None \<and> mkdir_error w TEMP_DIR = None))) \<and>
   (fst (ensure_directories w s) = Inr () \<longrightarrow>
      fs (snd (ensure_directories w s)) OUTPUT_DIR = Some Dir \<and>
      fs (snd (ensure_directories w s)) TEMP_DIR = Some Dir \<and>
      fst (ensure_directories w (snd (ensure_directories w s))) = Inr () \<and>
      fs (snd (ensure_directories w (snd (ensure_directories w s)))) =
        fs (snd (ensure_directories w s))) \<and>
   (\<forall>q. q \<noteq> OUTPUT_DIR \<and> q \<noteq> TEMP_DIR \<longrightarrow> fs (snd (ensure_directories w s)) q = fs s q) \<and>
   (fs s OUTPUT_DIR = Some Dir \<and> fs s TEMP_DIR = Some Dir \<longrightarrow>
      fst (ensure_directories w s) = Inr () \<and> fs (snd (ensure_directories w s)) = fs s)"
proof -
  obtain r s' where rs: "ensure_directories w s = (r, s')"
    by (cases "ensure_directories w s")
  have a: "r = Inr () \<Longrightarrow> fs s' OUTPUT_DIR = Some Dir \<and> fs s' TEMP_DIR = Some Dir"
    using ensure_directories_ok [of w s "()" s'] rs by simp
  have b: "r = Inr () \<Longrightarrow>
      fst (ensure_directories w s') = Inr () \<and> fs (snd (ensure_directories w s')) = fs s'"
    using a ensure_directories_existing [of s' w] by simp
  from ensure_directories_frame [OF rs]
  have c: "\<forall>q. q \<noteq> OUTPUT_DIR \<and> q \<noteq> TEMP_DIR \<longrightarrow> fs s' q = fs s q" by simp
  show ?thesis
    using a b c rs ensure_directories_ok_iff [of w s] ensure_directories_existing [of s w]
    by simp
qed

theorem ensure_directories_idempotent_witness:
  "fs empty_system OUTPUT_DIR = None \<and> mkdir_error sample_world OUTPUT_DIR = None \<and>
   fs empty_system TEMP_DIR = None \<and> mkdir_error sample_world TEMP_DIR = None \<and>
   fst (ensure_directories sample_world empty_system) = Inr () \<and>
   fs (snd (ensure_directories sample_world empty_system)) OUTPUT_DIR = Some Dir \<and>
   fs (snd (ensure_directories sample_world empty_system)) TEMP_DIR = Some Dir \<and>
   fst (ensure_directories sample_world (snd (ensure_directories sample_world empty_system))) =
     Inr () \<and>
   fs (snd (ensure_directories sample_world
              (snd (ensure_directories sample_world empty_system)))) =
     fs (snd (ensure_directories sample_world empty_system))"
proof -
  have h: "fs empty_system OUTPUT_DIR = None \<and> mkdir_error sample_world OUTPUT_DIR = None \<and>
     fs empty_system TEMP_DIR = None \<and> mkdir_error sample_world TEMP_DIR = None"
    by (simp add: sample_defs)
  with ensure_directories_idempotent [of sample_world empty_system] show ?thesis
    by simp
qed

text \<open>
  C5. When the API key is absent from the environment (or empty), the run fails: with the
  \<open>ValueError\<close> of the client setup when the directories could be provisioned, and
  with the provisioning error otherwise. No call to the hosted model is made, nothing is
  handed to the rasterizer, the clock is not read (no temporary folder is named), and no
  path other than the output and the temp directory is touched.
\<close>

theorem missing_api_key_aborts:
  assumes "getenv w ''ANTHROPIC_API_KEY'' = None \<or> getenv w ''ANTHROPIC_API_KEY'' = Some []"
  shows "fst (process_pdf_document w pdf_path s) =
           (case fst (ensure_directories w s) of Inl e \<Rightarrow> Inl e | Inr u \<Rightarrow> Inl ValueError) \<and>
         exchanges (snd (process_pdf_document w pdf_path s)) = exchanges s \<and>
         rasterized (snd (process_pdf_document w pdf_path s)) = rasterized s \<and>
         clock_reads (snd (process_pdf_document w pdf_path s)) = clock_reads s \<and>
         (\<forall>q. q \<noteq> OUTPUT_DIR \<and> q \<noteq> TEMP_DIR \<longrightarrow>
            fs (snd (process_pdf_document w pdf_path s)) q = fs s q)"
proof -
  obtain r s1 where rs: "ensure_directories w s = (r, s1)"
    by (cases "ensure_directories w s")
  have body: "process_pdf_document_body w pdf_path s =
      ((case r of Inl e \<Rightarrow> Inl e | Inr u \<Rightarrow> Inl ValueError), s1)"
    using rs setup_anthropic_client_missing [OF assms, of s1]
    by (simp add: process_pdf_document_body_def split: sum.splits)
  from ensure_directories_frame [OF rs] rs body show ?thesis
    by (simp add: process_pdf_document_def)
qed

theorem missing_api_key_aborts_witness:
  "getenv (sample_world\<lparr>getenv := (\<lambda>k. None)\<rparr>) ''ANTHROPIC_API_KEY'' = None \<and>
   fst (process_pdf_document (sample_world\<lparr>getenv := (\<lambda>k. None)\<rparr>) ''cipl/sample7.pdf''
          empty_system) = Inl ValueError \<and>
   exchanges (snd (process_pdf_document (sample_world\<lparr>getenv := (\<lambda>k. None)\<rparr>)
          ''cipl/sample7.pdf'' empty_system)) = [] \<and>
   rasterized (snd (process_pdf_document (sample_world\<lparr>getenv := (\<lambda>k. None)\<rparr>)
          ''cipl/sample7.pdf'' empty_system)) = [] \<and>
   fs (snd (process_pdf_document (sample_world\<lparr>getenv := (\<lambda>k. None)\<rparr>)
          ''cipl/sample7.pdf'' empty_system)) ''temp/pdf_images_20240115_123045'' = None"
proof -
  have h: "getenv (sample_world\<lparr>getenv := (\<lambda>k. None)\<rparr>) ''ANTHROPIC_API_KEY'' = None"
    by simp
  have e: "fst (ensure_directories (sample_world\<lparr>getenv := (\<lambda>k. None)\<rparr>) empty_system) = Inr ()"
    by (simp add: model_defs sample_defs)
  from missing_api_key_aborts [OF disjI1 [OF h], of "''cipl/sample7.pdf''" empty_system] e h
  show ?thesis
    by (simp add: OUTPUT_DIR_def TEMP_DIR_def empty_system_def)
qed

end
